theory Spec2Isabelle
  imports Complex_Main "HOL-Library.Char_ord" "HOL-Library.List_Lexorder"
begin

section \<open>JavaScript values\<close>

text \<open>
  The worker is TypeScript. A JavaScript number is a finite value, one of the two
  infinities, or NaN. Finite values are modelled as reals: the rounding of IEEE doubles
  and the sign of zero are not represented.
\<close>

datatype jsnum = NaN | PosInf | NegInf | Fin real

fun isNaN :: "jsnum \<Rightarrow> bool" where
  "isNaN NaN = True"
| "isNaN _ = False"

text \<open>\<open>a >= b\<close> on numbers: false as soon as one side is NaN.\<close>

fun js_ge :: "jsnum \<Rightarrow> jsnum \<Rightarrow> bool" where
  "js_ge NaN _ = False"
| "js_ge _ NaN = False"
| "js_ge PosInf _ = True"
| "js_ge _ NegInf = True"
| "js_ge NegInf _ = False"
| "js_ge _ PosInf = False"
| "js_ge (Fin x) (Fin y) = (y \<le> x)"

text \<open>\<open>Math.max\<close> and \<open>Math.min\<close> return NaN as soon as one argument is NaN.\<close>

fun Math_max :: "jsnum \<Rightarrow> jsnum \<Rightarrow> jsnum" where
  "Math_max NaN _ = NaN"
| "Math_max _ NaN = NaN"
| "Math_max PosInf _ = PosInf"
| "Math_max _ PosInf = PosInf"
| "Math_max NegInf b = b"
| "Math_max a NegInf = a"
| "Math_max (Fin x) (Fin y) = Fin (max x y)"

fun Math_min :: "jsnum \<Rightarrow> jsnum \<Rightarrow> jsnum" where
  "Math_min NaN _ = NaN"
| "Math_min _ NaN = NaN"
| "Math_min NegInf _ = NegInf"
| "Math_min _ NegInf = NegInf"
| "Math_min PosInf b = b"
| "Math_min a PosInf = a"
| "Math_min (Fin x) (Fin y) = Fin (min x y)"

fun Math_ceil :: "jsnum \<Rightarrow> jsnum" where
  "Math_ceil (Fin x) = Fin (of_int \<lceil>x\<rceil>)"
| "Math_ceil n = n"

text \<open>Division of a number by a positive finite literal (\<open>radiusKm / 1.406\<close>).\<close>

fun js_div_lit :: "jsnum \<Rightarrow> real \<Rightarrow> jsnum" where
  "js_div_lit (Fin x) c = Fin (x / c)"
| "js_div_lit n c = n"

text \<open>
  A value of type \<open>unknown\<close> read from a parsed JSON body: a primitive, or an array
  or object, which is kept as its JSON text. \<open>JUndefined\<close> is what reading an absent
  property gives.
\<close>

datatype jsval = JUndefined | JNull | JBool bool | JNum jsnum | JStr string | JObj string

text \<open>\<open>Record<string, unknown>\<close>: property access is total, absent keys read undefined.\<close>

type_synonym jsrecord = "string \<Rightarrow> jsval"

definition emptyRecord :: jsrecord where
  "emptyRecord = (\<lambda>k. JUndefined)"

fun js_truthy :: "jsval \<Rightarrow> bool" where
  "js_truthy JUndefined = False"
| "js_truthy JNull = False"
| "js_truthy (JBool b) = b"
| "js_truthy (JNum n) = (n \<noteq> NaN \<and> n \<noteq> Fin 0)"
| "js_truthy (JStr s) = (s \<noteq> [])"
| "js_truthy (JObj s) = True"

text \<open>\<open>v == null\<close> (loose equality): true for null and undefined only.\<close>

fun js_nullish :: "jsval \<Rightarrow> bool" where
  "js_nullish JUndefined = True"
| "js_nullish JNull = True"
| "js_nullish _ = False"

text \<open>\<open>a ?? b\<close>.\<close>

definition coalesce :: "jsval \<Rightarrow> jsval \<Rightarrow> jsval" where
  "coalesce a b = (if js_nullish a then b else a)"

section \<open>Imported capabilities\<close>

text \<open>
  The hex-grid library (\<open>h3-js\<close>: \<open>latLngToCell\<close>, \<open>gridDisk\<close>), the built-ins
  whose result depends on text conversion or on the clock, and SQLite's \<open>datetime\<close>
  are not part of the repository. They are parameters of the model, collected in one
  record; every theorem below holds for each choice of them.
\<close>

record platform =
  latLngToCell :: "jsnum \<Rightarrow> jsnum \<Rightarrow> nat \<Rightarrow> string"
  gridDisk :: "string \<Rightarrow> jsnum \<Rightarrow> string list"
  stringToNumber :: "string \<Rightarrow> jsnum"
  objectToNumber :: "string \<Rightarrow> jsnum"
  epochToISO :: "jsval \<Rightarrow> string option"
  nowISO :: string
  datetime :: "string \<Rightarrow> string option"
  datetimeNow :: "jsnum \<Rightarrow> string option"

text \<open>
  \<open>stringToNumber\<close> and \<open>objectToNumber\<close> are \<open>Number(v)\<close> on a string and on an
  array or object. \<open>epochToISO v\<close> is \<open>new Date(v * 1000).toISOString()\<close>, which throws
  a RangeError (\<open>None\<close>) on an invalid date; \<open>nowISO\<close> is
  \<open>new Date().toISOString()\<close>. \<open>datetime s\<close> is SQLite's \<open>datetime(s)\<close>, NULL
  (\<open>None\<close>) when \<open>s\<close> does not parse, and \<open>datetimeNow d\<close> is
  \<open>datetime('now', '-d days')\<close>.
\<close>

fun js_Number :: "platform \<Rightarrow> jsval \<Rightarrow> jsnum" where
  "js_Number p JUndefined = NaN"
| "js_Number p JNull = Fin 0"
| "js_Number p (JBool b) = Fin (if b then 1 else 0)"
| "js_Number p (JNum n) = n"
| "js_Number p (JStr s) = stringToNumber p s"
| "js_Number p (JObj s) = objectToNumber p s"

subsection \<open>parseInt and parseFloat\<close>

text \<open>
  The two parsers are written out from their ECMAScript definitions: leading white
  space is skipped, a sign is read, and the longest prefix that is a numeral is
  converted; NaN when there is none. Only ASCII white space is recognised here.
\<close>

definition is_ws :: "char \<Rightarrow> bool" where
  "is_ws c = (of_char c \<in> {9, 10, 11, 12, 13, 32 :: nat})"

text \<open>The value of a digit in radix up to 36; 36 for a character that is no digit.\<close>

definition digit_value :: "char \<Rightarrow> nat" where
  "digit_value c =
     (let n = of_char c :: nat in
      if 48 \<le> n \<and> n \<le> 57 then n - 48
      else if 97 \<le> n \<and> n \<le> 122 then n - 87
      else if 65 \<le> n \<and> n \<le> 90 then n - 55
      else 36)"

definition is_digit :: "char \<Rightarrow> bool" where
  "is_digit c = (digit_value c < 10)"

definition decimal :: "string \<Rightarrow> nat" where
  "decimal ds = foldl (\<lambda>a c. a * 10 + digit_value c) 0 ds"

definition js_parseInt :: "string \<Rightarrow> jsnum" where
  "js_parseInt s =
     (let s1 = dropWhile is_ws s;
          neg = (take 1 s1 = ''-'');
          s2 = (if take 1 s1 = ''+'' \<or> take 1 s1 = ''-'' then drop 1 s1 else s1);
          hex = (take 2 s2 = ''0x'' \<or> take 2 s2 = ''0X'');
          radix = (if hex then 16 else 10);
          s3 = (if hex then drop 2 s2 else s2);
          ds = takeWhile (\<lambda>c. digit_value c < radix) s3;
          n = foldl (\<lambda>a c. a * radix + digit_value c) 0 ds
      in if ds = [] then NaN
         else Fin (if neg then - real n else real n))"

definition js_parseFloat :: "string \<Rightarrow> jsnum" where
  "js_parseFloat s =
     (let s1 = dropWhile is_ws s;
          neg = (take 1 s1 = ''-'');
          s2 = (if take 1 s1 = ''+'' \<or> take 1 s1 = ''-'' then drop 1 s1 else s1)
      in if take 8 s2 = ''Infinity'' then (if neg then NegInf else PosInf)
         else
           let ip = takeWhile is_digit s2;
               r1 = dropWhile is_digit s2;
               dot = (take 1 r1 = ''.'');
               fp = (if dot then takeWhile is_digit (drop 1 r1) else []);
               r2 = (if dot then dropWhile is_digit (drop 1 r1) else r1);
               r3 = drop 1 r2;
               eneg = (take 1 r3 = ''-'');
               r4 = (if take 1 r3 = ''+'' \<or> take 1 r3 = ''-'' then drop 1 r3 else r3);
               ed = (if take 1 r2 = ''e'' \<or> take 1 r2 = ''E''
                     then takeWhile is_digit r4 else []);
               ex = (if eneg then - int (decimal ed) else int (decimal ed))
                      - int (length fp);
               m = real (decimal (ip @ fp));
               v = (if 0 \<le> ex then m * 10 ^ nat ex else m / 10 ^ nat (- ex))
           in if ip = [] \<and> fp = [] then NaN
              else Fin (if neg then - v else v))"

section \<open>Responses and errors\<close>

text \<open>
  A thrown exception is \<open>Inl\<close> of an error: the store rejecting or failing a call, or
  \<open>toISOString\<close> on an invalid date.
\<close>

datatype error = StoreError | RangeError

record spatialMeta =
  query_center :: "jsnum \<times> jsnum"
  radius_km :: jsnum
  resolution_used :: nat
  cells_searched :: nat

text \<open>A stored row, with the columns the handlers read or write back.\<close>

record location =
  row_id :: nat
  row_timestamp :: string
  row_lat :: "real option"
  row_lon :: "real option"
  row_source :: "string option"
  row_h3_res7 :: "string option"
  row_h3_res9 :: "string option"

text \<open>
  The JSON bodies the handlers produce: \<open>[]\<close>, \<open>{status: "ok"}\<close>, \<open>{error}\<close>,
  \<open>{status, imported, errors, total}\<close>, \<open>{status, updated, remaining, total_records?}\<close>
  and \<open>{count, locations, meta?}\<close>.
\<close>

datatype payload =
    EmptyList
  | StatusOk
  | ErrorMessage string
  | ImportReport string nat nat nat
  | BackfillReport string nat nat "nat option"
  | LocationList nat "location list" "spatialMeta option"

record response =
  http_status :: nat
  json :: payload

definition jsonResponse :: "payload \<Rightarrow> nat \<Rightarrow> response" where
  "jsonResponse d st = \<lparr>http_status = st, json = d\<rparr>"

definition errorResponse :: "string \<Rightarrow> nat \<Rightarrow> response" where
  "errorResponse message st = jsonResponse (ErrorMessage message) st"

section \<open>H3 helpers\<close>

record h3 =
  h3_res7 :: "string option"
  h3_res9 :: "string option"

definition computeH3 :: "platform \<Rightarrow> jsval \<Rightarrow> jsval \<Rightarrow> h3" where
  "computeH3 p lat lon =
     (if js_nullish lat \<or> js_nullish lon then \<lparr>h3_res7 = None, h3_res9 = None\<rparr>
      else
        let la = js_Number p lat; lo = js_Number p lon in
        if isNaN la \<or> isNaN lo then \<lparr>h3_res7 = None, h3_res9 = None\<rparr>
        else \<lparr>h3_res7 = Some (latLngToCell p la lo 7),
              h3_res9 = Some (latLngToCell p la lo 9)\<rparr>)"

record nearby =
  column :: string
  cells :: "string list"

definition buildNearbyParams :: "platform \<Rightarrow> jsnum \<Rightarrow> jsnum \<Rightarrow> jsnum \<Rightarrow> nearby" where
  "buildNearbyParams p lat lon radiusKm =
     (if js_ge radiusKm (Fin 2) then
        let k = Math_min (Math_ceil (js_div_lit radiusKm 1.406)) (Fin 10);
            center = latLngToCell p lat lon 7
        in \<lparr>column = ''h3_res7'', cells = gridDisk p center k\<rparr>
      else
        let k = Math_min (Math_ceil (js_div_lit radiusKm 0.201)) (Fin 10);
            center = latLngToCell p lat lon 9
        in \<lparr>column = ''h3_res9'', cells = gridDisk p center k\<rparr>)"

section \<open>Timestamp normalization\<close>

text \<open>
  \<open>TS_NORM\<close> is an SQL expression over the \<open>timestamp\<close> column:
  \<^verbatim>\<open>CASE WHEN timestamp GLOB '*[+-][0-9][0-9][0-9][0-9]'
  THEN substr(timestamp, 1, length(timestamp) - 2) || ':' || substr(timestamp, -2)
  ELSE timestamp END\<close>
  It is embedded as the function it computes on the column's text. A GLOB pattern is a
  list of items: \<open>*\<close>, a set of characters, a range of characters.
\<close>

datatype glob_item = Star | Chars "char list" | Range char char

definition in_range :: "char \<Rightarrow> char \<Rightarrow> char \<Rightarrow> bool" where
  "in_range lo hi c = (lo \<le> c \<and> c \<le> hi)"

fun glob_match :: "glob_item list \<Rightarrow> string \<Rightarrow> bool" where
  "glob_match [] s = (s = [])"
| "glob_match (Star # ps) [] = glob_match ps []"
| "glob_match (Star # ps) (c # cs) = (glob_match ps (c # cs) \<or> glob_match (Star # ps) cs)"
| "glob_match (Chars xs # ps) [] = False"
| "glob_match (Chars xs # ps) (c # cs) = (c \<in> set xs \<and> glob_match ps cs)"
| "glob_match (Range lo hi # ps) [] = False"
| "glob_match (Range lo hi # ps) (c # cs) = (in_range lo hi c \<and> glob_match ps cs)"

text \<open>
  SQLite's \<open>substr(s, y, z)\<close> and \<open>substr(s, y)\<close> (\<open>z\<close> absent): positions count
  from 1, a negative \<open>y\<close> counts from the end, a negative \<open>z\<close> takes the characters
  before position \<open>y\<close>.
\<close>

definition sqlite_substr :: "string \<Rightarrow> int \<Rightarrow> int option \<Rightarrow> string" where
  "sqlite_substr s y zopt =
     (let len = int (length s);
          negP2 = (case zopt of Some z \<Rightarrow> z < 0 | None \<Rightarrow> False);
          p2a = (case zopt of Some z \<Rightarrow> \<bar>z\<bar> | None \<Rightarrow> len + \<bar>y\<bar>);
          (p1, p2) =
            (if y < 0 then
               (if y + len < 0 then (0, max (p2a + (y + len)) 0) else (y + len, p2a))
             else if 0 < y then (y - 1, p2a)
             else if 0 < p2a then (0, p2a - 1)
             else (0, p2a));
          (q1, q2) =
            (if negP2 then (if p1 - p2 < 0 then (0, p2 + (p1 - p2)) else (p1 - p2, p2))
             else (p1, p2))
      in take (nat q2) (drop (nat q1) s))"

definition TS_GLOB :: "glob_item list" where
  "TS_GLOB = [Star, Chars ''+-'', Range CHR ''0'' CHR ''9'', Range CHR ''0'' CHR ''9'',
     Range CHR ''0'' CHR ''9'', Range CHR ''0'' CHR ''9'']"

definition TS_NORM :: "string \<Rightarrow> string" where
  "TS_NORM timestamp =
     (if glob_match TS_GLOB timestamp
      then sqlite_substr timestamp 1 (Some (int (length timestamp) - 2)) @ '':'' @
           sqlite_substr timestamp (- 2) None
      else timestamp)"

definition TS_UTC :: "platform \<Rightarrow> string \<Rightarrow> string option" where
  "TS_UTC p timestamp = datetime p (TS_NORM timestamp)"

text \<open>
  The rule in the specification's words: the text ends in a sign and four digits; the
  colon goes before the last two characters.
\<close>

definition is_sign :: "char \<Rightarrow> bool" where
  "is_sign c = (c \<in> set ''+-'')"

definition is_decimal_digit :: "char \<Rightarrow> bool" where
  "is_decimal_digit c = (c \<in> set ''0123456789'')"

definition ends_in_compact_offset :: "string \<Rightarrow> bool" where
  "ends_in_compact_offset s =
     (case drop (length s - 5) s of
        [sg, a, b, c, d] \<Rightarrow>
          is_sign sg \<and> is_decimal_digit a \<and> is_decimal_digit b
          \<and> is_decimal_digit c \<and> is_decimal_digit d
      | _ \<Rightarrow> False)"

definition insert_colon :: "string \<Rightarrow> string" where
  "insert_colon s = take (length s - 2) s @ '':'' @ drop (length s - 2) s"

section \<open>Reading locations\<close>

text \<open>\<open>url.searchParams.get\<close>: the text of a parameter, or null.\<close>

type_synonym searchParams = "string \<Rightarrow> string option"

text \<open>\<open>if (s)\<close> on \<open>string | null\<close>: null and the empty string are falsy.\<close>

fun str_truthy :: "string option \<Rightarrow> bool" where
  "str_truthy None = False"
| "str_truthy (Some s) = (s \<noteq> [])"

definition orDefault :: "string option \<Rightarrow> string \<Rightarrow> string" where
  "orDefault v d = (case v of None \<Rightarrow> d | Some s \<Rightarrow> s)"

definition daysParam :: "searchParams \<Rightarrow> jsnum" where
  "daysParam sp =
     Math_min (Math_max (js_parseInt (orDefault (sp ''days'') ''7'')) (Fin 1)) (Fin 365)"

definition limitParam :: "searchParams \<Rightarrow> jsnum" where
  "limitParam sp =
     Math_min (Math_max (js_parseInt (orDefault (sp ''limit'') ''1000'')) (Fin 1)) (Fin 10000)"

definition radiusKmParam :: "searchParams \<Rightarrow> jsnum" where
  "radiusKmParam sp =
     Math_min (Math_max (js_parseFloat (orDefault (sp ''radius'') ''1'')) (Fin 0.1)) (Fin 50)"

text \<open>
  SQL comparison of two texts, either of which may be NULL: a comparison with NULL is
  not true, so the row is filtered out. Texts compare character by character.
\<close>

fun sql_ge :: "string option \<Rightarrow> string option \<Rightarrow> bool" where
  "sql_ge (Some a) (Some b) = (b \<le> a)"
| "sql_ge _ _ = False"

fun sql_le :: "string option \<Rightarrow> string option \<Rightarrow> bool" where
  "sql_le (Some a) (Some b) = (a \<le> b)"
| "sql_le _ _ = False"

definition column_value :: "location \<Rightarrow> string \<Rightarrow> string option" where
  "column_value r c =
     (if c = ''h3_res7'' then row_h3_res7 r
      else if c = ''h3_res9'' then row_h3_res9 r
      else None)"

text \<open>
  The query text is assembled from fragments, each with its bound values. A fragment of
  the WHERE clause is embedded as the predicate on a row it denotes, the ORDER BY as
  the key it sorts by (descending), and LIMIT as its bound value.
\<close>

record query =
  q_where :: "(location \<Rightarrow> bool) list"
  q_order_desc :: "location \<Rightarrow> string option"
  q_limit :: jsnum

definition spatialFilter ::
  "platform \<Rightarrow> searchParams \<Rightarrow> response + (nearby \<times> spatialMeta) option" where
  "spatialFilter p sp =
     (case (sp ''near_lat'', sp ''near_lon'') of
        (Some nearLat, Some nearLon) \<Rightarrow>
          let lat = js_parseFloat nearLat; lon = js_parseFloat nearLon in
          if isNaN lat \<or> isNaN lon
          then Inl (errorResponse ''near_lat and near_lon must be valid numbers'' 400)
          else
            let radiusKm = radiusKmParam sp;
                f = buildNearbyParams p lat lon radiusKm
            in Inr (Some (f,
                 \<lparr>query_center = (lat, lon), radius_km = radiusKm,
                  resolution_used = (if column f = ''h3_res7'' then 7 else 9),
                  cells_searched = length (cells f)\<rparr>))
      | _ \<Rightarrow> Inr None)"

definition buildLocationsQuery ::
  "platform \<Rightarrow> searchParams \<Rightarrow> response + (query \<times> spatialMeta option)" where
  "buildLocationsQuery p sp =
     (let days = daysParam sp;
          limit = limitParam sp;
          source = sp ''source'';
          after = sp ''after'';
          before = sp ''before''
      in case spatialFilter p sp of
           Inl resp \<Rightarrow> Inl resp
         | Inr sf \<Rightarrow>
             let lower =
                   (if str_truthy after
                    then [\<lambda>r. sql_ge (TS_UTC p (row_timestamp r)) after]
                    else if sf = None
                    then [\<lambda>r. sql_ge (TS_UTC p (row_timestamp r)) (datetimeNow p days)]
                    else []);
                 upper =
                   (if str_truthy before
                    then [\<lambda>r. sql_le (TS_UTC p (row_timestamp r)) before]
                    else []);
                 bySource =
                   (if str_truthy source
                    then [\<lambda>r. row_source r = source]
                    else []);
                 byCells =
                   (case sf of
                      Some (f, m) \<Rightarrow>
                        [\<lambda>r. case column_value r (column f) of
                                None \<Rightarrow> False
                              | Some c \<Rightarrow> c \<in> set (cells f)]
                    | None \<Rightarrow> [])
             in Inr (\<lparr>q_where = lower @ upper @ bySource @ byCells,
                      q_order_desc = (\<lambda>r. TS_UTC p (row_timestamp r)),
                      q_limit = limit\<rparr>,
                     map_option snd sf))"

text \<open>
  \<open>handleGetLocations\<close>: the query is handed to the store (\<open>all\<close>), whose rows are
  returned with their count.
\<close>

definition handleGetLocations ::
  "platform \<Rightarrow> (query \<Rightarrow> 'db \<Rightarrow> error + location list) \<Rightarrow> searchParams \<Rightarrow> 'db
     \<Rightarrow> error + response" where
  "handleGetLocations p all sp db =
     (case buildLocationsQuery p sp of
        Inl resp \<Rightarrow> Inr resp
      | Inr (q, meta) \<Rightarrow>
          (case all q db of
             Inl e \<Rightarrow> Inl e
           | Inr rows \<Rightarrow> Inr (jsonResponse (LocationList (length rows) rows meta) 200)))"

section \<open>Writing to the store\<close>

text \<open>
  A prepared INSERT: the column list of its text and the values bound to its
  placeholders, in order. A prepared
  \<^verbatim>\<open>UPDATE locations SET h3_res7 = ?, h3_res9 = ? WHERE id = ?\<close> with its three bound
  values.
\<close>

record insert_stmt =
  columns :: "string list"
  bindings :: "jsval list"

record update_stmt =
  set_h3_res7 :: "string option"
  set_h3_res9 :: "string option"
  where_id :: nat


text \<open>A value of type \<open>string | null\<close> as a bound value.\<close>

fun js_of_opt :: "string option \<Rightarrow> jsval" where
  "js_of_opt None = JNull"
| "js_of_opt (Some s) = JStr s"

text \<open>
  The store is a state of type \<open>'db\<close>. A write call (\<open>run\<close> of one statement,
  \<open>batch\<close> of several) hands the store a list of statements, executed atomically: the
  store answers with its new state, or rejects the call and keeps its state. How it
  decides is the parameter \<open>exec\<close>. Next to the store, the state records every write
  call made, with whether it was accepted.
\<close>

record ('db, 's) world =
  store :: 'db
  calls :: "('s list \<times> bool) list"

definition submit ::
  "('s list \<Rightarrow> 'db \<Rightarrow> error + 'db) \<Rightarrow> 's list \<Rightarrow> ('db, 's) world
     \<Rightarrow> (error + unit) \<times> ('db, 's) world" where
  "submit exec ss w =
     (case exec ss (store w) of
        Inl e \<Rightarrow> (Inl e, w\<lparr>calls := calls w @ [(ss, False)]\<rparr>)
      | Inr d \<Rightarrow> (Inr (), \<lparr>store = d, calls = calls w @ [(ss, True)]\<rparr>))"

text \<open>The write calls made between two states.\<close>

definition issued :: "('db, 's) world \<Rightarrow> ('db, 's) world \<Rightarrow> ('s list \<times> bool) list" where
  "issued w w' = drop (length (calls w)) (calls w')"

section \<open>Single ingestion\<close>

text \<open>\<open>await stmt.run()\<close> followed by \<open>return resp\<close>: a rejected write is thrown on.\<close>

definition runThen ::
  "(insert_stmt list \<Rightarrow> 'db \<Rightarrow> error + 'db) \<Rightarrow> insert_stmt \<Rightarrow> response
     \<Rightarrow> ('db, insert_stmt) world \<Rightarrow> (error + response) \<times> ('db, insert_stmt) world" where
  "runThen exec s resp w =
     (case submit exec [s] w of
        (Inl e, w') \<Rightarrow> (Inl e, w')
      | (Inr u, w') \<Rightarrow> (Inr resp, w'))"

text \<open>
  \<open>body.tst ? new Date(body.tst * 1000).toISOString() : new Date().toISOString()\<close>
\<close>

definition trackerTimestamp :: "platform \<Rightarrow> jsrecord \<Rightarrow> string option" where
  "trackerTimestamp p body =
     (if js_truthy (body ''tst'') then epochToISO p (body ''tst'') else Some (nowISO p))"

definition handlePostLocation ::
  "platform \<Rightarrow> (insert_stmt list \<Rightarrow> 'db \<Rightarrow> error + 'db) \<Rightarrow> jsrecord
     \<Rightarrow> ('db, insert_stmt) world \<Rightarrow> (error + response) \<times> ('db, insert_stmt) world" where
  "handlePostLocation p exec body w =
     (if body ''_type'' = JStr ''location'' then
        (case trackerTimestamp p body of
           None \<Rightarrow> (Inl RangeError, w)
         | Some timestamp \<Rightarrow>
             let h = computeH3 p (body ''lat'') (body ''lon'') in
             runThen exec
               \<lparr>columns = [''timestamp'', ''lat'', ''lon'', ''accuracy'', ''altitude'',
                   ''speed'', ''source'', ''h3_res7'', ''h3_res9''],
                bindings = [JStr timestamp, body ''lat'', body ''lon'',
                   coalesce (body ''acc'') JNull, coalesce (body ''alt'') JNull,
                   coalesce (body ''vel'') JNull, JStr ''owntracks'',
                   js_of_opt (h3_res7 h), js_of_opt (h3_res9 h)]\<rparr>
               (jsonResponse EmptyList 200) w)
      else if body ''_type'' = JStr ''waypoint'' \<and> body ''lat'' \<noteq> JUndefined
                \<and> body ''lon'' \<noteq> JUndefined then
        (case trackerTimestamp p body of
           None \<Rightarrow> (Inl RangeError, w)
         | Some timestamp \<Rightarrow>
             let h = computeH3 p (body ''lat'') (body ''lon'') in
             runThen exec
               \<lparr>columns = [''timestamp'', ''lat'', ''lon'', ''accuracy'', ''source'',
                   ''semantic_type'', ''h3_res7'', ''h3_res9''],
                bindings = [JStr timestamp, body ''lat'', body ''lon'',
                   coalesce (body ''rad'') JNull, JStr ''owntracks:waypoint'',
                   coalesce (body ''desc'') JNull,
                   js_of_opt (h3_res7 h), js_of_opt (h3_res9 h)]\<rparr>
               (jsonResponse EmptyList 200) w)
      else if body ''_type'' = JStr ''transition'' \<and> body ''lat'' \<noteq> JUndefined
                \<and> body ''lon'' \<noteq> JUndefined then
        (case trackerTimestamp p body of
           None \<Rightarrow> (Inl RangeError, w)
         | Some timestamp \<Rightarrow>
             let h = computeH3 p (body ''lat'') (body ''lon'') in
             runThen exec
               \<lparr>columns = [''timestamp'', ''lat'', ''lon'', ''accuracy'', ''source'',
                   ''semantic_type'', ''activity_type'', ''h3_res7'', ''h3_res9''],
                bindings = [JStr timestamp, body ''lat'', body ''lon'',
                   coalesce (body ''acc'') JNull, JStr ''owntracks:transition'',
                   coalesce (body ''desc'') JNull, coalesce (body ''event'') JNull,
                   js_of_opt (h3_res7 h), js_of_opt (h3_res9 h)]\<rparr>
               (jsonResponse EmptyList 200) w)
      else if js_truthy (body ''_type'') then (Inr (jsonResponse EmptyList 200), w)
      else if body ''lat'' \<noteq> JUndefined \<and> body ''lon'' \<noteq> JUndefined then
        (let timestamp = coalesce (body ''timestamp'') (JStr (nowISO p));
             h = computeH3 p (body ''lat'') (body ''lon'')
         in runThen exec
              \<lparr>columns = [''timestamp'', ''lat'', ''lon'', ''accuracy'', ''source'',
                  ''place_id'', ''semantic_type'', ''activity_type'', ''altitude'',
                  ''speed'', ''h3_res7'', ''h3_res9''],
               bindings = [timestamp, body ''lat'', body ''lon'',
                  coalesce (body ''accuracy'') JNull,
                  coalesce (body ''source'') (JStr ''manual''),
                  coalesce (body ''place_id'') JNull,
                  coalesce (body ''semantic_type'') JNull,
                  coalesce (body ''activity_type'') JNull,
                  coalesce (body ''altitude'') JNull, coalesce (body ''speed'') JNull,
                  js_of_opt (h3_res7 h), js_of_opt (h3_res9 h)]\<rparr>
              (jsonResponse StatusOk 201) w)
      else (Inr (errorResponse ''Invalid payload: lat and lon required'' 400), w))"

section \<open>Batch import\<close>






section \<open>Backfill\<close>

text \<open>A row of \<open>SELECT id, lat, lon\<close>, typed \<open>{id: number; lat: number; lon: number}\<close>.\<close>

record backfill_row =
  b_id :: nat
  b_lat :: real
  b_lon :: real


definition backfillStmt :: "platform \<Rightarrow> backfill_row \<Rightarrow> update_stmt" where
  "backfillStmt p row =
     (let h = computeH3 p (JNum (Fin (b_lat row))) (JNum (Fin (b_lon row))) in
      \<lparr>set_h3_res7 = h3_res7 h, set_h3_res9 = h3_res9 h, where_id = b_id row\<rparr>)"





subsection \<open>A store in memory\<close>





section \<open>Sample inputs\<close>

text \<open>
  A fixed choice of the capabilities, used to run the model on concrete inputs: cell ids
  name their resolution, a disk is its centre, strings and objects are not numeric,
  dates always format, and \<open>datetime\<close> accepts every text as it is.
\<close>

definition samplePlatform :: platform where
  "samplePlatform =
     \<lparr>latLngToCell = (\<lambda>la lo res. if res = 7 then ''cell7'' else ''cell9''),
      gridDisk = (\<lambda>c k. [c]),
      stringToNumber = (\<lambda>s. NaN),
      objectToNumber = (\<lambda>s. NaN),
      epochToISO = (\<lambda>v. Some ''2023-11-14T22:13:20.000Z''),
      nowISO = ''2024-01-01T00:00:00.000Z'',
      datetime = (\<lambda>s. Some s),
      datetimeNow = (\<lambda>d. Some ''2023-12-25 00:00:00'')\<rparr>"

text \<open>A store that accepts every write call and keeps the statements it was given.\<close>

definition acceptAll :: "'s list \<Rightarrow> 's list \<Rightarrow> error + 's list" where
  "acceptAll ss db = Inr (db @ ss)"

definition emptyWorld :: "('s list, 's) world" where
  "emptyWorld = \<lparr>store = [], calls = []\<rparr>"

definition sampleRow :: "nat \<Rightarrow> location" where
  "sampleRow i =
     \<lparr>row_id = i, row_timestamp = ''2024-01-01T12:00:00+0900'', row_lat = Some 35,
      row_lon = Some 139, row_source = None, row_h3_res7 = None, row_h3_res9 = None\<rparr>"

section \<open>Vocabulary of the properties\<close>

text \<open>Whether a store call was accepted.\<close>

definition accepted :: "(error + 'a) \<Rightarrow> bool" where
  "accepted r = (case r of Inl e \<Rightarrow> False | Inr d \<Rightarrow> True)"

text \<open>
  The number of statements in the accepted write calls of a trace, and in the rejected
  ones.
\<close>

definition accepted_count :: "('s list \<times> bool) list \<Rightarrow> nat" where
  "accepted_count cs = sum_list (map (\<lambda>c. length (fst c)) (filter snd cs))"

definition rejected_count :: "('s list \<times> bool) list \<Rightarrow> nat" where
  "rejected_count cs = sum_list (map (\<lambda>c. length (fst c)) (filter (\<lambda>c. \<not> snd c) cs))"




definition nearOnly :: searchParams where
  "nearOnly = Map.empty(''near_lat'' \<mapsto> ''35.0'', ''near_lon'' \<mapsto> ''139.0'')"

section \<open>Facts about the store calls and the two loops\<close>

lemma submit_calls:
  "calls (snd (submit exec ss w)) = calls w @ [(ss, accepted (exec ss (store w)))]"
  by (simp add: submit_def accepted_def split: sum.splits)

lemma issued_self [simp]: "issued w w = []"
  by (simp add: issued_def)

lemma issued_append: "calls w' = calls w @ new \<Longrightarrow> issued w w' = new"
  by (simp add: issued_def)

lemma runThen_calls:
  "calls (snd (runThen exec s resp w)) = calls w @ [([s], accepted (exec [s] (store w)))]"
  by (simp add: runThen_def submit_def accepted_def split: sum.splits)

lemma runThen_issued:
  "issued w (snd (runThen exec s resp w)) = [([s], accepted (exec [s] (store w)))]"
  by (rule issued_append) (rule runThen_calls)

lemma runThen_result:
  "fst (runThen exec s resp w) =
     (case exec [s] (store w) of Inl e \<Rightarrow> Inl e | Inr d \<Rightarrow> Inr resp)"
  by (simp add: runThen_def submit_def split: sum.splits)

lemma runThen_accept:
  "exec [s] (store w) = Inr d \<Longrightarrow>
     runThen exec s resp w = (Inr resp, \<lparr>store = d, calls = calls w @ [([s], True)]\<rparr>)"
  by (simp add: runThen_def submit_def)




lemma accepted_count_append:
  "accepted_count (xs @ ys) = accepted_count xs + accepted_count ys"
  by (simp add: accepted_count_def)

lemma rejected_count_append:
  "rejected_count (xs @ ys) = rejected_count xs + rejected_count ys"
  by (simp add: rejected_count_def)
















lemma backfillStmt_sets [simp]:
  "set_h3_res7 (backfillStmt p b) \<noteq> None" "set_h3_res9 (backfillStmt p b) \<noteq> None"
  "where_id (backfillStmt p b) = b_id b"
  by (simp_all add: backfillStmt_def computeH3_def Let_def)




















lemma js_of_opt_null [simp]: "(js_of_opt x = JNull) = (x = None)"
  by (cases x) simp_all







section \<open>Facts about the timestamp rule and the query\<close>

lemma digit_range [simp]: "in_range CHR ''0'' CHR ''9'' c = is_decimal_digit c"
proof
  let ?n = "of_char c :: nat"
  assume "in_range CHR ''0'' CHR ''9'' c"
  then have "48 \<le> ?n \<and> ?n \<le> 57" by (simp add: in_range_def less_eq_char_def)
  then have "?n = 48 \<or> ?n = 49 \<or> ?n = 50 \<or> ?n = 51 \<or> ?n = 52 \<or> ?n = 53 \<or> ?n = 54
             \<or> ?n = 55 \<or> ?n = 56 \<or> ?n = 57" by arith
  then have "?n = of_char CHR ''0'' \<or> ?n = of_char CHR ''1'' \<or> ?n = of_char CHR ''2''
     \<or> ?n = of_char CHR ''3'' \<or> ?n = of_char CHR ''4'' \<or> ?n = of_char CHR ''5''
     \<or> ?n = of_char CHR ''6'' \<or> ?n = of_char CHR ''7'' \<or> ?n = of_char CHR ''8''
     \<or> ?n = of_char CHR ''9''" by simp
  then have "c = CHR ''0'' \<or> c = CHR ''1'' \<or> c = CHR ''2'' \<or> c = CHR ''3'' \<or> c = CHR ''4''
     \<or> c = CHR ''5'' \<or> c = CHR ''6'' \<or> c = CHR ''7'' \<or> c = CHR ''8'' \<or> c = CHR ''9''"
    by (simp only: of_char_eq_iff)
  then show "is_decimal_digit c" by (auto simp: is_decimal_digit_def)
next
  assume "is_decimal_digit c"
  then show "in_range CHR ''0'' CHR ''9'' c"
    by (auto simp: is_decimal_digit_def in_range_def less_eq_char_def)
qed

lemma glob_star:
  "glob_match (Star # ps) s = (\<exists>k \<le> length s. glob_match ps (drop k s))"
proof (induction s)
  case Nil
  then show ?case by simp
next
  case (Cons c cs)
  show ?case
  proof
    assume "glob_match (Star # ps) (c # cs)"
    then consider "glob_match ps (c # cs)" | "glob_match (Star # ps) cs" by auto
    then show "\<exists>k \<le> length (c # cs). glob_match ps (drop k (c # cs))"
    proof cases
      case 1
      then show ?thesis by (intro exI[of _ 0]) simp
    next
      case 2
      with Cons.IH obtain k where "k \<le> length cs" "glob_match ps (drop k cs)" by auto
      then show ?thesis by (intro exI[of _ "Suc k"]) simp
    qed
  next
    assume "\<exists>k \<le> length (c # cs). glob_match ps (drop k (c # cs))"
    then obtain k where k: "k \<le> length (c # cs)" "glob_match ps (drop k (c # cs))" by auto
    show "glob_match (Star # ps) (c # cs)"
    proof (cases k)
      case 0
      then show ?thesis using k by simp
    next
      case (Suc j)
      then have "j \<le> length cs" "glob_match ps (drop j cs)" using k by simp_all
      then show ?thesis using Cons.IH by auto
    qed
  qed
qed

lemma glob_offset:
  "glob_match [Chars ''+-'', Range CHR ''0'' CHR ''9'', Range CHR ''0'' CHR ''9'',
      Range CHR ''0'' CHR ''9'', Range CHR ''0'' CHR ''9''] s =
   (case s of
      [sg, a, b, c, d] \<Rightarrow>
        is_sign sg \<and> is_decimal_digit a \<and> is_decimal_digit b
        \<and> is_decimal_digit c \<and> is_decimal_digit d
    | _ \<Rightarrow> False)"
  by (simp add: is_sign_def split: list.splits)

lemma glob_offset_length:
  "glob_match [Chars ''+-'', Range CHR ''0'' CHR ''9'', Range CHR ''0'' CHR ''9'',
      Range CHR ''0'' CHR ''9'', Range CHR ''0'' CHR ''9''] s \<Longrightarrow> length s = 5"
  by (simp add: glob_offset split: list.splits)

lemma TS_GLOB_iff: "glob_match TS_GLOB s = ends_in_compact_offset s"
proof -
  let ?ps = "[Chars ''+-'', Range CHR ''0'' CHR ''9'', Range CHR ''0'' CHR ''9'',
      Range CHR ''0'' CHR ''9'', Range CHR ''0'' CHR ''9'']"
  have "glob_match TS_GLOB s = (\<exists>k \<le> length s. glob_match ?ps (drop k s))"
    unfolding TS_GLOB_def by (rule glob_star)
  also have "\<dots> = glob_match ?ps (drop (length s - 5) s)"
  proof
    assume "\<exists>k \<le> length s. glob_match ?ps (drop k s)"
    then obtain k where k: "k \<le> length s" "glob_match ?ps (drop k s)" by auto
    from glob_offset_length[OF k(2)] have "k = length s - 5" using k(1) by simp
    then show "glob_match ?ps (drop (length s - 5) s)" using k(2) by simp
  next
    assume "glob_match ?ps (drop (length s - 5) s)"
    then show "\<exists>k \<le> length s. glob_match ?ps (drop k s)"
      by (intro exI[of _ "length s - 5"]) simp
  qed
  also have "\<dots> = ends_in_compact_offset s"
    unfolding ends_in_compact_offset_def by (rule glob_offset)
  finally show ?thesis .
qed

lemma ends_in_compact_offset_length: "ends_in_compact_offset s \<Longrightarrow> 5 \<le> length s"
proof -
  assume "ends_in_compact_offset s"
  then obtain sg a b c d where eq: "drop (length s - 5) s = [sg, a, b, c, d]"
    by (auto simp: ends_in_compact_offset_def split: list.splits)
  have "length (drop (length s - 5) s) = 5" unfolding eq by simp
  then show ?thesis by simp
qed

lemma substr_prefix:
  "2 \<le> length s \<Longrightarrow> sqlite_substr s 1 (Some (int (length s) - 2)) = take (length s - 2) s"
  by (simp add: sqlite_substr_def Let_def nat_diff_distrib')

lemma substr_suffix:
  "2 \<le> length s \<Longrightarrow> sqlite_substr s (- 2) None = drop (length s - 2) s"
  by (simp add: sqlite_substr_def Let_def nat_diff_distrib')

lemma TS_NORM_rule:
  "TS_NORM s = (if ends_in_compact_offset s then insert_colon s else s)"
proof (cases "ends_in_compact_offset s")
  case True
  then have "2 \<le> length s" using ends_in_compact_offset_length[of s] by simp
  then show ?thesis using True
    by (simp add: TS_NORM_def TS_GLOB_iff insert_colon_def substr_prefix substr_suffix)
next
  case False
  then show ?thesis by (simp add: TS_NORM_def TS_GLOB_iff)
qed


lemma column_value_timestamp [simp]:
  "column_value (r\<lparr>row_timestamp := t\<rparr>) c = column_value r c"
  by (simp add: column_value_def)


lemma params_eval:
  "js_parseInt ''7'' = Fin 7" "js_parseInt ''1000'' = Fin 1000" "js_parseFloat ''1'' = Fin 1"
  "js_parseFloat ''35.0'' = Fin 35" "js_parseFloat ''139.0'' = Fin 139"
  by (simp_all add: js_parseInt_def js_parseFloat_def is_ws_def digit_value_def is_digit_def
      decimal_def)


lemma radiusKmParam_days: "radiusKmParam (sp(''days'' := dv)) = radiusKmParam sp"
  by (simp add: radiusKmParam_def)

lemma spatialFilter_days:
  "spatialFilter p (sp(''days'' := dv)) = spatialFilter p sp"
  by (simp add: spatialFilter_def radiusKmParam_days Let_def cong: option.case_cong if_cong)

lemma limitParam_days: "limitParam (sp(''days'' := dv)) = limitParam sp"
  by (simp add: limitParam_def)

lemma spatial_some:
  "sp ''near_lat'' = Some a \<Longrightarrow> sp ''near_lon'' = Some b \<Longrightarrow> spatialFilter p sp = Inr sf
     \<Longrightarrow> sf \<noteq> None"
  by (auto simp: spatialFilter_def Let_def split: if_splits)

lemma spatial_query_shape:
  assumes "sp ''near_lat'' = Some a" "sp ''near_lon'' = Some b" "\<not> str_truthy (sp ''after'')"
    and sfd: "spatialFilter p sp = Inr (Some (f, mt))"
  shows "buildLocationsQuery p sp =
     Inr (\<lparr>q_where =
            (if str_truthy (sp ''before'')
             then [\<lambda>r. sql_le (TS_UTC p (row_timestamp r)) (sp ''before'')]
             else []) @
            (if str_truthy (sp ''source'')
             then [\<lambda>r. row_source r = sp ''source'']
             else []) @
            [\<lambda>r. case column_value r (column f) of
                    None \<Rightarrow> False
                  | Some c \<Rightarrow> c \<in> set (cells f)],
           q_order_desc = (\<lambda>r. TS_UTC p (row_timestamp r)),
           q_limit = limitParam sp\<rparr>, Some mt)"
  unfolding buildLocationsQuery_def Let_def sfd using assms(3) by simp

lemma spatial_query_no_days:
  assumes "sp ''near_lat'' = Some a" "sp ''near_lon'' = Some b" "\<not> str_truthy (sp ''after'')"
  shows "buildLocationsQuery p (sp(''days'' := dv)) = buildLocationsQuery p sp"
proof (cases "spatialFilter p sp")
  case (Inl e)
  then show ?thesis
    by (simp add: buildLocationsQuery_def Let_def spatialFilter_days)
next
  case (Inr sf)
  with spatial_some[OF assms(1,2)] obtain f mt where sf: "sf = Some (f, mt)" by (cases sf) auto
  have a: "spatialFilter p sp = Inr (Some (f, mt))" using Inr sf by simp
  have b: "spatialFilter p (sp(''days'' := dv)) = Inr (Some (f, mt))"
    using a by (simp add: spatialFilter_days)
  have c: "(sp(''days'' := dv)) ''near_lat'' = Some a" "(sp(''days'' := dv)) ''near_lon'' = Some b"
    "\<not> str_truthy ((sp(''days'' := dv)) ''after'')"
    using assms by simp_all
  show ?thesis
    unfolding spatial_query_shape[OF assms a] spatial_query_shape[OF c b]
    by (simp add: limitParam_days)
qed

lemma sql_le_down:
  "sql_le (Some x1) bound \<Longrightarrow> x0 \<le> x1 \<Longrightarrow> sql_le (Some x0) bound"
  by (cases bound) auto

lemma spatial_query_no_lower_bound:
  assumes "sp ''near_lat'' = Some a" "sp ''near_lon'' = Some b" "\<not> str_truthy (sp ''after'')"
    and q: "buildLocationsQuery p sp = Inr (q, m)"
    and f: "f \<in> set (q_where q)"
    and hold: "f (r\<lparr>row_timestamp := t1\<rparr>)"
    and t: "TS_UTC p t0 = Some x0" "TS_UTC p t1 = Some x1" "x0 \<le> x1"
  shows "f (r\<lparr>row_timestamp := t0\<rparr>)"
proof -
  obtain sf where sf0: "spatialFilter p sp = Inr sf"
    using q by (cases "spatialFilter p sp") (simp_all add: buildLocationsQuery_def Let_def)
  with spatial_some[OF assms(1,2)] obtain g mt where sf: "spatialFilter p sp = Inr (Some (g, mt))"
    by (cases sf) auto
  have "Inr (q, m) = buildLocationsQuery p sp" using q by simp
  then have qd: "q_where q =
            (if str_truthy (sp ''before'')
             then [\<lambda>r. sql_le (TS_UTC p (row_timestamp r)) (sp ''before'')]
             else []) @
            (if str_truthy (sp ''source'')
             then [\<lambda>r. row_source r = sp ''source'']
             else []) @
            [\<lambda>r. case column_value r (column g) of
                    None \<Rightarrow> False
                  | Some c \<Rightarrow> c \<in> set (cells g)]"
    unfolding spatial_query_shape[OF assms(1,2,3) sf] by simp
  from f consider
      "f = (\<lambda>r. sql_le (TS_UTC p (row_timestamp r)) (sp ''before''))"
    | "f = (\<lambda>r. row_source r = sp ''source'')"
    | "f = (\<lambda>r. case column_value r (column g) of None \<Rightarrow> False | Some c \<Rightarrow> c \<in> set (cells g))"
    unfolding qd by (auto split: if_splits)
  then show ?thesis
  proof cases
    case 1
    then show ?thesis using hold t sql_le_down[of x1 "sp ''before''" x0] by simp
  next
    case 2
    then show ?thesis using hold by simp
  next
    case 3
    then show ?thesis using hold by simp
  qed
qed

lemma nearOnly_query:
  "buildLocationsQuery samplePlatform nearOnly =
     Inr (\<lparr>q_where = [\<lambda>r. case column_value r ''h3_res9'' of
                            None \<Rightarrow> False
                          | Some c \<Rightarrow> c \<in> set [''cell9'']],
           q_order_desc = (\<lambda>r. TS_UTC samplePlatform (row_timestamp r)),
           q_limit = Fin 1000\<rparr>,
          Some \<lparr>query_center = (Fin 35, Fin 139), radius_km = Fin 1, resolution_used = 9,
                cells_searched = 1\<rparr>)"
  by (simp add: buildLocationsQuery_def spatialFilter_def nearOnly_def Let_def limitParam_def
      radiusKmParam_def orDefault_def params_eval buildNearbyParams_def samplePlatform_def
      cong: option.case_cong)

lemma clamp_number:
  "n \<noteq> NaN \<Longrightarrow> lo \<le> hi \<Longrightarrow>
     \<exists>x. Math_min (Math_max n (Fin lo)) (Fin hi) = Fin x \<and> lo \<le> x \<and> x \<le> hi"
  by (cases n) auto

lemma params_in_range:
  "js_parseInt (orDefault (sp ''days'') ''7'') \<noteq> NaN \<Longrightarrow>
     \<exists>x. daysParam sp = Fin x \<and> 1 \<le> x \<and> x \<le> 365"
  "js_parseInt (orDefault (sp ''limit'') ''1000'') \<noteq> NaN \<Longrightarrow>
     \<exists>x. limitParam sp = Fin x \<and> 1 \<le> x \<and> x \<le> 10000"
  "js_parseFloat (orDefault (sp ''radius'') ''1'') \<noteq> NaN \<Longrightarrow>
     \<exists>x. radiusKmParam sp = Fin x \<and> 0.1 \<le> x \<and> x \<le> 50"
  unfolding daysParam_def limitParam_def radiusKmParam_def
  by (rule clamp_number; simp)+

lemma params_default:
  "sp ''days'' = None \<Longrightarrow> daysParam sp = Fin 7"
  "sp ''limit'' = None \<Longrightarrow> limitParam sp = Fin 1000"
  "sp ''radius'' = None \<Longrightarrow> radiusKmParam sp = Fin 1"
  by (simp_all add: daysParam_def limitParam_def radiusKmParam_def orDefault_def params_eval)

lemma parse_abc:
  "js_parseInt ''abc'' = NaN" "js_parseFloat ''abc'' = NaN"
  by (simp_all add: js_parseInt_def js_parseFloat_def is_ws_def digit_value_def is_digit_def
      decimal_def)

section \<open>Radius policy\<close>



section \<open>Single ingestion: a position ping without coordinates\<close>

text \<open>
  C1 states that a message tagged \<open>location\<close> whose \<open>lat\<close> or \<open>lon\<close> is missing is
  answered with a client error and that no write is attempted. The branch for
  \<open>location\<close> does not look at the coordinates (the branches for \<open>waypoint\<close> and
  \<open>transition\<close> do): for the body \<open>{_type: "location"}\<close> the handler issues exactly
  one write call, an INSERT whose \<open>lat\<close> and \<open>lon\<close> are bound to undefined and whose
  two index columns are bound to null. When the store accepts it the response is the
  empty-list acknowledgement with status 200; when the store rejects it the exception
  is thrown on. A client error is not among the outcomes.
\<close>

theorem location_without_coordinates_is_written:
  "issued w (snd (handlePostLocation p exec (emptyRecord(''_type'' := JStr ''location'')) w)) =
     [([\<lparr>columns = [''timestamp'', ''lat'', ''lon'', ''accuracy'', ''altitude'',
                   ''speed'', ''source'', ''h3_res7'', ''h3_res9''],
         bindings = [JStr (nowISO p), JUndefined, JUndefined, JNull, JNull, JNull,
                   JStr ''owntracks'', JNull, JNull]\<rparr>],
       accepted (exec [\<lparr>columns = [''timestamp'', ''lat'', ''lon'', ''accuracy'', ''altitude'',
                   ''speed'', ''source'', ''h3_res7'', ''h3_res9''],
         bindings = [JStr (nowISO p), JUndefined, JUndefined, JNull, JNull, JNull,
                   JStr ''owntracks'', JNull, JNull]\<rparr>] (store w)))]
   \<and> fst (handlePostLocation p exec (emptyRecord(''_type'' := JStr ''location'')) w) =
       (case exec [\<lparr>columns = [''timestamp'', ''lat'', ''lon'', ''accuracy'', ''altitude'',
                   ''speed'', ''source'', ''h3_res7'', ''h3_res9''],
         bindings = [JStr (nowISO p), JUndefined, JUndefined, JNull, JNull, JNull,
                   JStr ''owntracks'', JNull, JNull]\<rparr>] (store w) of
          Inl e \<Rightarrow> Inl e
        | Inr d \<Rightarrow> Inr (jsonResponse EmptyList 200))
   \<and> fst (handlePostLocation p acceptAll (emptyRecord(''_type'' := JStr ''location'')) emptyWorld)
       = Inr (jsonResponse EmptyList 200)"
  by (simp add: handlePostLocation_def emptyRecord_def trackerTimestamp_def computeH3_def
      coalesce_def runThen_issued runThen_accept runThen_result acceptAll_def emptyWorld_def)
section \<open>Backfill convergence\<close>




section \<open>Batch accounting\<close>



section \<open>The two index columns are written together\<close>



section \<open>At most one record per POST\<close>



section \<open>Timestamp normalization\<close>



section \<open>Query parameters that are not numbers\<close>

text \<open>
  C6 states that the effective \<open>days\<close>, \<open>limit\<close> and \<open>radius\<close> lie in \<open>[1, 365]\<close>,
  \<open>[1, 10000]\<close> and \<open>[0.1, 50]\<close> also when the parameter is supplied but is not a valid
  number. They do when the parameter is absent (the defaults 7, 1000 and 1) or parses
  to a number (\<open>params_default\<close>, \<open>params_in_range\<close>). For a text such as \<open>abc\<close> the
  parser gives NaN, \<open>Math.max\<close> and \<open>Math.min\<close> pass NaN on, and the effective value
  is NaN: the query is built with \<open>LIMIT\<close> bound to NaN.
\<close>

theorem non_numeric_parameters_are_not_clamped:
  "daysParam (Map.empty(''days'' \<mapsto> ''abc'')) = NaN
   \<and> limitParam (Map.empty(''limit'' \<mapsto> ''abc'')) = NaN
   \<and> radiusKmParam (Map.empty(''radius'' \<mapsto> ''abc'')) = NaN
   \<and> (\<exists>q m. buildLocationsQuery p (Map.empty(''limit'' \<mapsto> ''abc'')) = Inr (q, m)
         \<and> q_limit q = NaN)"
  by (simp add: daysParam_def limitParam_def radiusKmParam_def orDefault_def parse_abc
      buildLocationsQuery_def spatialFilter_def Let_def)

section \<open>Spatial reads carry no default time window\<close>

text \<open>
  C10. For a request with \<open>near_lat\<close> and \<open>near_lon\<close> and no \<open>after\<close>: what the
  handler builds (the query, or the error for coordinates that are not numbers) does not
  depend on the \<open>days\<close> parameter at all, and no predicate of the query bounds the
  time from below: whenever a row passes a predicate, the same row with any earlier
  timestamp that \<open>datetime\<close> can read passes it too.
\<close>

theorem spatial_reads_have_no_lower_time_bound:
  "sp ''near_lat'' = Some a \<and> sp ''near_lon'' = Some b \<and> sp ''after'' = None \<longrightarrow>
     buildLocationsQuery p (sp(''days'' := dv)) = buildLocationsQuery p sp
     \<and> (\<forall>q m. buildLocationsQuery p sp = Inr (q, m) \<longrightarrow>
          (\<forall>f \<in> set (q_where q). \<forall>r t0 t1 x0 x1.
             f (r\<lparr>row_timestamp := t1\<rparr>) \<and> TS_UTC p t0 = Some x0 \<and> TS_UTC p t1 = Some x1
             \<and> x0 \<le> x1 \<longrightarrow> f (r\<lparr>row_timestamp := t0\<rparr>)))"
proof (intro impI)
  assume h: "sp ''near_lat'' = Some a \<and> sp ''near_lon'' = Some b \<and> sp ''after'' = None"
  then have n: "sp ''near_lat'' = Some a" "sp ''near_lon'' = Some b" "\<not> str_truthy (sp ''after'')"
    by simp_all
  show "buildLocationsQuery p (sp(''days'' := dv)) = buildLocationsQuery p sp
     \<and> (\<forall>q m. buildLocationsQuery p sp = Inr (q, m) \<longrightarrow>
          (\<forall>f \<in> set (q_where q). \<forall>r t0 t1 x0 x1.
             f (r\<lparr>row_timestamp := t1\<rparr>) \<and> TS_UTC p t0 = Some x0 \<and> TS_UTC p t1 = Some x1
             \<and> x0 \<le> x1 \<longrightarrow> f (r\<lparr>row_timestamp := t0\<rparr>)))"
    using spatial_query_no_days[OF n, of p dv] spatial_query_no_lower_bound[OF n, of p]
    by blast
qed

theorem spatial_reads_have_no_lower_time_bound_witness:
  "buildLocationsQuery samplePlatform (nearOnly(''days'' := Some ''1''))
     = buildLocationsQuery samplePlatform nearOnly
   \<and> (\<exists>q m. buildLocationsQuery samplePlatform nearOnly = Inr (q, m)
        \<and> list_all (\<lambda>f. f ((sampleRow 0)\<lparr>row_h3_res9 := Some ''cell9'',
                                row_timestamp := ''1999-12-31T23:59:59Z''\<rparr>)) (q_where q))"
proof -
  note th = spatial_reads_have_no_lower_time_bound
      [where sp = nearOnly and a = "''35.0''" and b = "''139.0''" and p = samplePlatform
         and dv = "Some ''1''"]
  have pre: "nearOnly ''near_lat'' = Some ''35.0'' \<and> nearOnly ''near_lon'' = Some ''139.0''
             \<and> nearOnly ''after'' = None"
    by (simp add: nearOnly_def)
  from th pre have a: "buildLocationsQuery samplePlatform (nearOnly(''days'' := Some ''1''))
     = buildLocationsQuery samplePlatform nearOnly" by blast
  let ?r = "(sampleRow 0)\<lparr>row_h3_res9 := Some ''cell9''\<rparr>"
  let ?f = "\<lambda>r. case column_value r ''h3_res9'' of
                            None \<Rightarrow> False
                          | Some c \<Rightarrow> c \<in> set [''cell9'']"
  have now: "?f (?r\<lparr>row_timestamp := ''2024-01-01T12:00:00Z''\<rparr>)"
    by (simp add: column_value_def sampleRow_def)
  have ts: "TS_UTC samplePlatform ''1999-12-31T23:59:59Z'' = Some ''1999-12-31T23:59:59Z''"
    "TS_UTC samplePlatform ''2024-01-01T12:00:00Z'' = Some ''2024-01-01T12:00:00Z''"
    by (simp_all add: TS_UTC_def TS_NORM_rule ends_in_compact_offset_def is_sign_def
        samplePlatform_def)
  have le: "''1999-12-31T23:59:59Z'' \<le> ''2024-01-01T12:00:00Z''" by simp
  from th pre
  have "\<forall>q m. buildLocationsQuery samplePlatform nearOnly = Inr (q, m) \<longrightarrow>
          (\<forall>f \<in> set (q_where q). \<forall>r t0 t1 x0 x1.
             f (r\<lparr>row_timestamp := t1\<rparr>) \<and> TS_UTC samplePlatform t0 = Some x0
             \<and> TS_UTC samplePlatform t1 = Some x1
             \<and> x0 \<le> x1 \<longrightarrow> f (r\<lparr>row_timestamp := t0\<rparr>))"
    by (rule conjunct2[OF mp])
  from this[THEN spec, THEN spec, THEN mp, OF nearOnly_query]
  have s1: "\<forall>f \<in> set [?f]. \<forall>r t0 t1 x0 x1.
             f (r\<lparr>row_timestamp := t1\<rparr>) \<and> TS_UTC samplePlatform t0 = Some x0
             \<and> TS_UTC samplePlatform t1 = Some x1
             \<and> x0 \<le> x1 \<longrightarrow> f (r\<lparr>row_timestamp := t0\<rparr>)"
    by simp
  have s2: "\<forall>r t0 t1 x0 x1.
             ?f (r\<lparr>row_timestamp := t1\<rparr>) \<and> TS_UTC samplePlatform t0 = Some x0
             \<and> TS_UTC samplePlatform t1 = Some x1
             \<and> x0 \<le> x1 \<longrightarrow> ?f (r\<lparr>row_timestamp := t0\<rparr>)"
    using s1 by simp
  from s2 have "?f (?r\<lparr>row_timestamp := ''2024-01-01T12:00:00Z''\<rparr>)
        \<and> TS_UTC samplePlatform ''1999-12-31T23:59:59Z'' = Some ''1999-12-31T23:59:59Z''
        \<and> TS_UTC samplePlatform ''2024-01-01T12:00:00Z'' = Some ''2024-01-01T12:00:00Z''
        \<and> ''1999-12-31T23:59:59Z'' \<le> ''2024-01-01T12:00:00Z''
      \<longrightarrow> ?f (?r\<lparr>row_timestamp := ''1999-12-31T23:59:59Z''\<rparr>)"
    by (elim allE)
  with now ts le have "?f (?r\<lparr>row_timestamp := ''1999-12-31T23:59:59Z''\<rparr>)"
    by blast
  then show ?thesis using a by (simp add: nearOnly_query)
qed

end
